theory Spec2Isabelle
  imports Main "HOL-Library.Word" "HOL-Library.Signed_Division"
begin

unbundle bit_operations_syntax

section \<open>Values, errors and the handle\<close>

text \<open>
  The development embeds \<^verbatim>\<open>ev3dev/dc_motor.go\<close>: the handle to a dc-motor of the
  ev3dev sysfs interface. A \<^verbatim>\<open>time.Duration\<close> is an \<^verbatim>\<open>int64\<close> count of nanoseconds
  and is a 64-bit word here, read as two's complement. The size of Go's \<^verbatim>\<open>int\<close>
  depends on the target: \<open>intSize\<close> (\<^verbatim>\<open>strconv.IntSize\<close>) is 64 here, as on amd64 and
  arm64; on 386 and arm it is 32. Identifiers and duty cycles, on which the file does no
  arithmetic, are plain integers.
\<close>

type_synonym Duration = "64 word"

definition intSize :: nat where
  "intSize = 64"

definition Millisecond :: Duration where
  "Millisecond = 1000000"

text \<open>The operands of a \<^verbatim>\<open>fmt.Errorf\<close> call, kept with the format instead of rendered.\<close>

datatype val = VStr string | VInt int | VDur Duration | VStrs "string list"

text \<open>
  An \<^verbatim>\<open>error\<close> value. \<open>Errorf\<close> is an error built by \<^verbatim>\<open>fmt.Errorf\<close> from a format
  and its operands; \<open>NumError\<close> is the error of \<^verbatim>\<open>strconv.Atoi\<close> on the text it names;
  \<open>IOFailure\<close> is a failure of the backing store; \<open>NotFound\<close> and \<open>DriverMismatch\<close>
  (the driver wanted, the driver found) are the two failures of discovery.
\<close>

datatype error =
    Errorf string "val list"
  | NumError string
  | IOFailure string
  | NotFound
  | DriverMismatch string string

text \<open>\<^verbatim>\<open>type DCMotor struct { id int; err error }\<close>; a nil \<^verbatim>\<open>error\<close> is \<open>None\<close>.\<close>

record DCMotor =
  id_of :: int
  err :: "error option"

text \<open>
  The attributes of a dc-motor that the file names. Their sysfs file names are constants
  declared elsewhere in the package.
\<close>

datatype attr =
    commands | command | dutyCycle | dutyCycleSetpoint | polarity
  | rampUpSetpoint | rampDownSetpoint | state | stopAction | stopActions
  | timeSetpoint | uevent

text \<open>
  The attribute accessor of the package, taken as a parameter: \<open>attributeOf\<close> reads the
  text of an attribute of the device it is given (the dereferenced handle, \<open>None\<close> for
  nil) and returns it with a byte count and an error, \<open>setAttributeOf\<close> writes a text
  and returns an error. Both act on the backing store \<open>'w\<close>, which they return, and
  leave the handle as it is.
\<close>

record 'w accessor =
  attributeOf :: "'w \<Rightarrow> DCMotor option \<Rightarrow> attr \<Rightarrow> 'w \<times> string \<times> nat \<times> error option"
  setAttributeOf :: "'w \<Rightarrow> DCMotor option \<Rightarrow> attr \<Rightarrow> string \<Rightarrow> 'w \<times> error option"

text \<open>
  Handles are used through pointers (\<^verbatim>\<open>*DCMotor\<close>): the program state is the heap of
  handles, addressed by position, and the backing store. The nil pointer is \<open>None\<close>.
\<close>

type_synonym ptr = "nat option"

record 'w st =
  heap :: "DCMotor list"
  world :: 'w

definition deref :: "'w st \<Rightarrow> ptr \<Rightarrow> DCMotor option" where
  "deref \<sigma> p =
     (case p of
        None \<Rightarrow> None
      | Some a \<Rightarrow> if a < length (heap \<sigma>) then Some (heap \<sigma> ! a) else None)"

definition put :: "ptr \<Rightarrow> DCMotor \<Rightarrow> 'w st \<Rightarrow> 'w st" where
  "put p m \<sigma> = (case p of None \<Rightarrow> \<sigma> | Some a \<Rightarrow> \<sigma>\<lparr>heap := (heap \<sigma>)[a := m]\<rparr>)"

text \<open>
  A method with a pointer receiver whose body reads and assigns the fields of \<^verbatim>\<open>*m\<close>:
  the body maps the handle and the store to a result, the new handle and the new store.
  Dereferencing nil panics, which is the result \<open>None\<close>.
\<close>

definition with_receiver ::
  "(DCMotor \<Rightarrow> 'w \<Rightarrow> 'r \<times> DCMotor \<times> 'w) \<Rightarrow> ptr \<Rightarrow> 'w st \<Rightarrow> ('r \<times> 'w st) option" where
  "with_receiver body p \<sigma> =
     (case deref \<sigma> p of
        None \<Rightarrow> None
      | Some m \<Rightarrow>
          (case body m (world \<sigma>) of
             (r, m', w') \<Rightarrow> Some (r, put p m' (\<sigma>\<lparr>world := w'\<rparr>))))"

text \<open>A setter returns its receiver: the result of the method is the pointer itself.\<close>

definition setter ::
  "(DCMotor \<Rightarrow> 'w \<Rightarrow> DCMotor \<times> 'w) \<Rightarrow> ptr \<Rightarrow> 'w st \<Rightarrow> (ptr \<times> 'w st) option" where
  "setter body p \<sigma> = with_receiver (\<lambda>m w. (p, body m w)) p \<sigma>"

section \<open>Error draining and identity\<close>

text \<open>\<^verbatim>\<open>err := m.err; m.err = nil; return err\<close>\<close>

definition Err_body :: "DCMotor \<Rightarrow> 'w \<Rightarrow> error option \<times> DCMotor \<times> 'w" where
  "Err_body m w = (err m, m\<lparr>err := None\<rparr>, w)"

definition Err :: "ptr \<Rightarrow> 'w st \<Rightarrow> (error option \<times> 'w st) option" where
  "Err p \<sigma> = with_receiver Err_body p \<sigma>"

text \<open>\<^verbatim>\<open>*m = DCMotor{id: id}\<close>\<close>

definition setID_body :: "int \<Rightarrow> DCMotor \<Rightarrow> 'w \<Rightarrow> unit \<times> DCMotor \<times> 'w" where
  "setID_body i m w = ((), \<lparr>id_of = i, err = None\<rparr>, w)"

definition setID :: "int \<Rightarrow> ptr \<Rightarrow> 'w st \<Rightarrow> (unit \<times> 'w st) option" where
  "setID i p \<sigma> = with_receiver (setID_body i) p \<sigma>"

section \<open>Text: decimal numerals, splitting\<close>

text \<open>
  \<^verbatim>\<open>fmt.Sprint\<close> of an integer is its base-10 numeral, with a leading minus sign when it
  is negative (\<^verbatim>\<open>strconv.FormatInt(i, 10)\<close>).
\<close>

definition digit :: "nat \<Rightarrow> char" where
  "digit d = ''0123456789'' ! d"

fun FormatUint :: "nat \<Rightarrow> string" where
  "FormatUint n = (if n < 10 then [digit n] else FormatUint (n div 10) @ [digit (n mod 10)])"

declare FormatUint.simps [simp del]

definition Sprint_int :: "int \<Rightarrow> string" where
  "Sprint_int i = (if i < 0 then CHR ''-'' # FormatUint (nat (- i)) else FormatUint (nat i))"

text \<open>
  \<^verbatim>\<open>strings.Split(s, sep)\<close> for a separator of one byte: the pieces between the
  separators, empty pieces kept; the empty text has one piece, itself empty.
\<close>

fun Split :: "string \<Rightarrow> char \<Rightarrow> string list" where
  "Split [] sep = [[]]"
| "Split (c # cs) sep =
     (if c = sep then [] # Split cs sep
      else (case Split cs sep of [] \<Rightarrow> [[c]] | t # ts \<Rightarrow> (c # t) # ts))"




section \<open>The handle's methods\<close>

text \<open>\<^verbatim>\<open>Type\<close> returns \<^verbatim>\<open>"motor"\<close>: the value of \<^verbatim>\<open>motorPrefix\<close>.\<close>

definition motorPrefix :: string where
  "motorPrefix = ''motor''"

text \<open>
  \<^verbatim>\<open>String\<close>, on the dereferenced receiver: \<^verbatim>\<open>motorPrefix + "*"\<close> for nil, and
  \<^verbatim>\<open>fmt.Sprint(motorPrefix, m.id)\<close> otherwise, which puts no space after a string operand.
\<close>

definition String :: "DCMotor option \<Rightarrow> string" where
  "String mo =
     (case mo of None \<Rightarrow> motorPrefix @ ''*'' | Some m \<Rightarrow> motorPrefix @ Sprint_int (id_of m))"

text \<open>
  Modelled from the spec: \<^verbatim>\<open>stringSliceFrom\<close>, the conversion of the package that is
  declared outside this file. A read error is passed on; otherwise the raw text is split
  on single spaces and empty segments are kept.
\<close>

definition stringSliceFrom :: "string \<times> nat \<times> error option \<Rightarrow> string list \<times> error option" where
  "stringSliceFrom r =
     (case r of (data, n, e) \<Rightarrow>
        (case e of Some x \<Rightarrow> ([], Some x) | None \<Rightarrow> (Split data CHR '' '', None)))"

text \<open>\<^verbatim>\<open>Commands\<close> and \<^verbatim>\<open>StopActions\<close> read the two allow-lists.\<close>

definition Commands :: "'w accessor \<Rightarrow> DCMotor option \<Rightarrow> 'w \<Rightarrow> (string list \<times> error option) \<times> 'w" where
  "Commands io m w =
     (case attributeOf io w m commands of (w', r) \<Rightarrow> (stringSliceFrom r, w'))"

definition StopActions :: "'w accessor \<Rightarrow> DCMotor option \<Rightarrow> 'w \<Rightarrow> (string list \<times> error option) \<times> 'w" where
  "StopActions io m w =
     (case attributeOf io w m stopActions of (w', r) \<Rightarrow> (stringSliceFrom r, w'))"

text \<open>
  The loop \<^verbatim>\<open>for _, c := range avail { if c == comm { ok = true; break } }\<close>.
\<close>

fun available :: "string list \<Rightarrow> string \<Rightarrow> bool" where
  "available [] comm = False"
| "available (c # cs) comm = (if c = comm then True else available cs comm)"

definition Command_body :: "'w accessor \<Rightarrow> string \<Rightarrow> DCMotor \<Rightarrow> 'w \<Rightarrow> DCMotor \<times> 'w" where
  "Command_body io comm m w =
     (if err m \<noteq> None then (m, w)
      else (case Commands io (Some m) w of
              ((avail, e), w') \<Rightarrow>
                if e \<noteq> None then (m\<lparr>err := e\<rparr>, w')
                else if \<not> available avail comm then
                  (m\<lparr>err := Some (Errorf ''ev3dev: command %q not available for %s (available:%q)''
                                      [VStr comm, VStr (String (Some m)), VStrs avail])\<rparr>, w')
                else (case setAttributeOf io w' (Some m) command comm of
                        (w'', e') \<Rightarrow> (m\<lparr>err := e'\<rparr>, w''))))"

definition Command :: "'w accessor \<Rightarrow> string \<Rightarrow> ptr \<Rightarrow> 'w st \<Rightarrow> (ptr \<times> 'w st) option" where
  "Command io comm p \<sigma> = setter (Command_body io comm) p \<sigma>"

definition SetDutyCycleSetpoint_body :: "'w accessor \<Rightarrow> int \<Rightarrow> DCMotor \<Rightarrow> 'w \<Rightarrow> DCMotor \<times> 'w" where
  "SetDutyCycleSetpoint_body io sp m w =
     (if err m \<noteq> None then (m, w)
      else if sp < - 100 \<or> sp > 100 then
        (m\<lparr>err := Some (Errorf ''ev3dev: invalid duty cycle setpoint: %d (valid -100 - 100)''
                            [VInt sp])\<rparr>, w)
      else (case setAttributeOf io w (Some m) dutyCycleSetpoint (Sprint_int sp) of
              (w', e) \<Rightarrow> (m\<lparr>err := e\<rparr>, w')))"

definition SetDutyCycleSetpoint ::
  "'w accessor \<Rightarrow> int \<Rightarrow> ptr \<Rightarrow> 'w st \<Rightarrow> (ptr \<times> 'w st) option" where
  "SetDutyCycleSetpoint io sp p \<sigma> = setter (SetDutyCycleSetpoint_body io sp) p \<sigma>"

text \<open>
  \<^verbatim>\<open>type Polarity string\<close>, with the two values the error message of \<^verbatim>\<open>SetPolarity\<close>
  names.
\<close>

type_synonym Polarity = string

definition Normal :: Polarity where
  "Normal = ''normal''"

definition Inversed :: Polarity where
  "Inversed = ''inversed''"

definition SetPolarity_body :: "'w accessor \<Rightarrow> Polarity \<Rightarrow> DCMotor \<Rightarrow> 'w \<Rightarrow> DCMotor \<times> 'w" where
  \<open>SetPolarity_body io pol m w =
     (if err m \<noteq> None then (m, w)
      else if pol \<noteq> Normal \<and> pol \<noteq> Inversed then
        (m\<lparr>err := Some (Errorf ''ev3dev: invalid polarity: %q (valid "normal" or "inversed")''
                            [VStr pol])\<rparr>, w)
      else (case setAttributeOf io w (Some m) polarity pol of
              (w', e) \<Rightarrow> (m\<lparr>err := e\<rparr>, w')))\<close>

definition SetPolarity :: "'w accessor \<Rightarrow> Polarity \<Rightarrow> ptr \<Rightarrow> 'w st \<Rightarrow> (ptr \<times> 'w st) option" where
  "SetPolarity io pol p \<sigma> = setter (SetPolarity_body io pol) p \<sigma>"

text \<open>
  Go's \<^verbatim>\<open>/\<close> on \<^verbatim>\<open>int64\<close> truncates towards zero. The conversion \<^verbatim>\<open>int(x)\<close> of an
  \<^verbatim>\<open>int64\<close> keeps the low bits that an \<^verbatim>\<open>int\<close> has, read as two's complement; with
  64 bits that is the value itself.
\<close>

definition div64 :: "Duration \<Rightarrow> Duration \<Rightarrow> Duration" where
  "div64 a b = word_of_int (sint a sdiv sint b)"

definition int_of :: "nat \<Rightarrow> Duration \<Rightarrow> int" where
  "int_of bits x = signed_take_bit (bits - 1) (sint x)"

definition to_int :: "Duration \<Rightarrow> int" where
  "to_int x = int_of intSize x"

definition SetRampUpSetpoint_body :: "'w accessor \<Rightarrow> Duration \<Rightarrow> DCMotor \<Rightarrow> 'w \<Rightarrow> DCMotor \<times> 'w" where
  "SetRampUpSetpoint_body io sp m w =
     (if err m \<noteq> None then (m, w)
      else if sp <s 0 \<or> 10000 <s sp then
        (m\<lparr>err := Some (Errorf ''ev3dev: invalid ramp up setpoint: %v (must be positive)''
                            [VDur sp])\<rparr>, w)
      else (case setAttributeOf io w (Some m) rampUpSetpoint
                   (Sprint_int (to_int (div64 sp Millisecond))) of
              (w', e) \<Rightarrow> (m\<lparr>err := e\<rparr>, w')))"

definition SetRampUpSetpoint ::
  "'w accessor \<Rightarrow> Duration \<Rightarrow> ptr \<Rightarrow> 'w st \<Rightarrow> (ptr \<times> 'w st) option" where
  "SetRampUpSetpoint io sp p \<sigma> = setter (SetRampUpSetpoint_body io sp) p \<sigma>"

definition SetRampDownSetpoint_body :: "'w accessor \<Rightarrow> Duration \<Rightarrow> DCMotor \<Rightarrow> 'w \<Rightarrow> DCMotor \<times> 'w" where
  "SetRampDownSetpoint_body io sp m w =
     (if err m \<noteq> None then (m, w)
      else if sp <s 0 \<or> 10000 <s sp then
        (m\<lparr>err := Some (Errorf ''ev3dev: invalid ramp down setpoint: %v (must be positive)''
                            [VDur sp])\<rparr>, w)
      else (case setAttributeOf io w (Some m) rampDownSetpoint
                   (Sprint_int (to_int (div64 sp Millisecond))) of
              (w', e) \<Rightarrow> (m\<lparr>err := e\<rparr>, w')))"

definition SetRampDownSetpoint ::
  "'w accessor \<Rightarrow> Duration \<Rightarrow> ptr \<Rightarrow> 'w st \<Rightarrow> (ptr \<times> 'w st) option" where
  "SetRampDownSetpoint io sp p \<sigma> = setter (SetRampDownSetpoint_body io sp) p \<sigma>"

text \<open>
  \<^verbatim>\<open>State\<close>. \<^verbatim>\<open>MotorState\<close> is an unsigned integer type of the package, a word of some
  width here, and \<^verbatim>\<open>motorStateTable\<close>, the map from a token to its bit, is a parameter.
  The loop over the tokens returns at the first one that the table does not hold.
\<close>

fun state_loop ::
  "(string \<rightharpoonup> 's::len word) \<Rightarrow> string \<Rightarrow> string list \<Rightarrow> 's word \<Rightarrow> 's word \<times> error option" where
  "state_loop motorStateTable data [] stat = (stat, None)"
| "state_loop motorStateTable data (s # ss) stat =
     (case motorStateTable s of
        None \<Rightarrow> (0, Some (Errorf ''ev3dev: unrecognized motor state value: %s in [%s]''
                               [VStr s, VStr data]))
      | Some b \<Rightarrow> state_loop motorStateTable data ss (stat OR b))"

definition State_body ::
  "(string \<rightharpoonup> 's::len word) \<Rightarrow> 'w accessor \<Rightarrow> DCMotor \<Rightarrow> 'w
     \<Rightarrow> ('s word \<times> error option) \<times> DCMotor \<times> 'w" where
  "State_body motorStateTable io m w =
     (if err m \<noteq> None then
        (case Err_body m w of (e, m', w') \<Rightarrow> ((0, e), m', w'))
      else (case attributeOf io w (Some m) state of
              (w', data, n, e) \<Rightarrow>
                if e \<noteq> None then ((0, e), m, w')
                else (state_loop motorStateTable data (Split data CHR '' '') 0, m, w')))"

definition State ::
  "(string \<rightharpoonup> 's::len word) \<Rightarrow> 'w accessor \<Rightarrow> ptr \<Rightarrow> 'w st
     \<Rightarrow> (('s word \<times> error option) \<times> 'w st) option" where
  "State motorStateTable io p \<sigma> = with_receiver (State_body motorStateTable io) p \<sigma>"

definition SetStopAction_body :: "'w accessor \<Rightarrow> string \<Rightarrow> DCMotor \<Rightarrow> 'w \<Rightarrow> DCMotor \<times> 'w" where
  "SetStopAction_body io action m w =
     (if err m \<noteq> None then (m, w)
      else (case StopActions io (Some m) w of
              ((avail, e), w') \<Rightarrow>
                if e \<noteq> None then (m\<lparr>err := e\<rparr>, w')
                else if \<not> available avail action then
                  (m\<lparr>err := Some (Errorf ''ev3dev: stop action %q not available for %s (available:%q)''
                                      [VStr action, VStr (String (Some m)), VStrs avail])\<rparr>, w')
                else (case setAttributeOf io w' (Some m) stopAction action of
                        (w'', e') \<Rightarrow> (m\<lparr>err := e'\<rparr>, w''))))"

definition SetStopAction :: "'w accessor \<Rightarrow> string \<Rightarrow> ptr \<Rightarrow> 'w st \<Rightarrow> (ptr \<times> 'w st) option" where
  "SetStopAction io action p \<sigma> = setter (SetStopAction_body io action) p \<sigma>"





definition SetTimeSetpoint_body :: "'w accessor \<Rightarrow> Duration \<Rightarrow> DCMotor \<Rightarrow> 'w \<Rightarrow> DCMotor \<times> 'w" where
  "SetTimeSetpoint_body io sp m w =
     (if err m \<noteq> None then (m, w)
      else (case setAttributeOf io w (Some m) timeSetpoint
                   (Sprint_int (to_int (div64 sp Millisecond))) of
              (w', e) \<Rightarrow> (m\<lparr>err := e\<rparr>, w')))"

definition SetTimeSetpoint ::
  "'w accessor \<Rightarrow> Duration \<Rightarrow> ptr \<Rightarrow> 'w st \<Rightarrow> (ptr \<times> 'w st) option" where
  "SetTimeSetpoint io sp p \<sigma> = setter (SetTimeSetpoint_body io sp) p \<sigma>"

section \<open>Discovery\<close>

text \<open>
  \<^verbatim>\<open>DCMotorFor\<close>. The resolver \<^verbatim>\<open>deviceIDFor\<close> of the package is a parameter: from the
  backing store, a port and a driver it gives an id and an error. A handle for an
  id other than \<open>-1\<close> is allocated at the end of the heap.
\<close>

definition DCMotorFor ::
  "('w \<Rightarrow> string \<Rightarrow> string \<Rightarrow> 'w \<times> int \<times> error option) \<Rightarrow> string \<Rightarrow> string \<Rightarrow> 'w st
     \<Rightarrow> (ptr \<times> error option) \<times> 'w st" where
  "DCMotorFor deviceIDFor port driver \<sigma> =
     (case deviceIDFor (world \<sigma>) port driver of
        (w', i, e) \<Rightarrow>
          if i = - 1 then ((None, e), \<sigma>\<lparr>world := w'\<rparr>)
          else ((Some (length (heap \<sigma>)), e),
                \<sigma>\<lparr>heap := heap \<sigma> @ [\<lparr>id_of = i, err = None\<rparr>], world := w'\<rparr>))"

section \<open>A backing store and a resolver to run the handle on\<close>

text \<open>
  Modelled from the spec: the attribute accessor, which the package declares outside
  this file. The store holds one text per attribute file of a device directory, named by
  the device's string form. Reading a file gives its text and its length; reading or
  writing a file that is not there is an I/O failure. Every access is logged.
\<close>

datatype access = Read string attr | Write string attr string

record sysfs =
  files :: "string \<times> attr \<rightharpoonup> string"
  log :: "access list"

definition sysfs_read :: "sysfs \<Rightarrow> DCMotor option \<Rightarrow> attr \<Rightarrow> sysfs \<times> string \<times> nat \<times> error option" where
  "sysfs_read w d a =
     (let w' = w\<lparr>log := log w @ [Read (String d) a]\<rparr>
      in case files w (String d, a) of
           None \<Rightarrow> (w', [], 0, Some (IOFailure (String d)))
         | Some t \<Rightarrow> (w', t, length t, None))"

definition sysfs_write :: "sysfs \<Rightarrow> DCMotor option \<Rightarrow> attr \<Rightarrow> string \<Rightarrow> sysfs \<times> error option" where
  "sysfs_write w d a t =
     (let w' = w\<lparr>log := log w @ [Write (String d) a t]\<rparr>
      in case files w (String d, a) of
           None \<Rightarrow> (w', Some (IOFailure (String d)))
         | Some old \<Rightarrow> (w'\<lparr>files := (files w)((String d, a) \<mapsto> t)\<rparr>, None))"

definition sysfs_io :: "sysfs accessor" where
  "sysfs_io = \<lparr>attributeOf = sysfs_read, setAttributeOf = sysfs_write\<rparr>"

text \<open>
  Modelled from the spec: the resolver \<^verbatim>\<open>deviceIDFor\<close>, which the package declares
  outside this file. The candidates are listed in scan order as id, port and driver.
  With an empty port the first candidate with the driver is found; otherwise the first
  candidate at the port, with a \<open>DriverMismatch\<close> error when its driver differs. When
  there is none the id is \<open>-1\<close> and the error \<open>NotFound\<close>.
\<close>

type_synonym candidates = "(int \<times> string \<times> string) list"

fun scan :: "candidates \<Rightarrow> string \<Rightarrow> string \<Rightarrow> int \<times> error option" where
  "scan [] port driver = (- 1, Some NotFound)"
| "scan ((i, prt, drv) # cs) port driver =
     (if port = [] then (if drv = driver then (i, None) else scan cs port driver)
      else if prt = port then
        (if drv = driver then (i, None) else (i, Some (DriverMismatch driver drv)))
      else scan cs port driver)"

definition deviceIDFor_spec :: "candidates \<Rightarrow> string \<Rightarrow> string \<Rightarrow> candidates \<times> int \<times> error option" where
  "deviceIDFor_spec cs port driver = (cs, scan cs port driver)"

section \<open>Notions of the specification\<close>

text \<open>
  A count of nanoseconds truncated towards zero to whole milliseconds, as the
  specification words it; the code computes it by \<^verbatim>\<open>int(sp/time.Millisecond)\<close>.
\<close>

definition trunc_ms :: "int \<Rightarrow> int" where
  "trunc_ms n = (if 0 \<le> n then n div 1000000 else - ((- n) div 1000000))"

text \<open>The bitwise OR of the bits that a table gives to the tokens of a list.\<close>

definition or_bits :: "(string \<rightharpoonup> 's::len word) \<Rightarrow> string list \<Rightarrow> 's word" where
  "or_bits tbl toks = foldr (\<lambda>t acc. the (tbl t) OR acc) toks 0"

text \<open>The first token of a list that a table does not hold, if there is one.\<close>

definition unrecognized :: "(string \<rightharpoonup> 's::len word) \<Rightarrow> string list \<Rightarrow> string option" where
  "unrecognized tbl toks = find (\<lambda>t. tbl t = None) toks"

section \<open>A brick to run the handle on\<close>

text \<open>
  One dc-motor, \<open>motor0\<close>, with its attribute files, and the token table of the
  specification's example.
\<close>

definition brick :: sysfs where
  "brick =
     \<lparr>files =
        [(''motor0'', commands) \<mapsto> ''run-forever stop'',
         (''motor0'', command) \<mapsto> [],
         (''motor0'', dutyCycleSetpoint) \<mapsto> ''0'',
         (''motor0'', polarity) \<mapsto> ''normal'',
         (''motor0'', rampUpSetpoint) \<mapsto> ''0'',
         (''motor0'', rampDownSetpoint) \<mapsto> ''0'',
         (''motor0'', state) \<mapsto> ''running ramping'',
         (''motor0'', stopAction) \<mapsto> ''coast'',
         (''motor0'', stopActions) \<mapsto> ''coast brake'',
         (''motor0'', timeSetpoint) \<mapsto> ''0''],
      log = []\<rparr>"

definition motor0 :: DCMotor where
  "motor0 = \<lparr>id_of = 0, err = None\<rparr>"

definition ready :: "sysfs st" where
  "ready = \<lparr>heap = [motor0], world = brick\<rparr>"

definition failed :: "sysfs st" where
  "failed = \<lparr>heap = [motor0\<lparr>err := Some (IOFailure ''motor0'')\<rparr>], world = brick\<rparr>"

definition example_table :: "string \<rightharpoonup> 32 word" where
  "example_table = [''running'' \<mapsto> 1, ''ramping'' \<mapsto> 2, ''stalled'' \<mapsto> 4]"

text \<open>
  What a setter leaves behind on the brick: the pointer it returns, the heap, the text of
  one attribute file of \<open>motor0\<close> and the log of accesses.
\<close>

definition view ::
  "attr \<Rightarrow> (ptr \<times> sysfs st) option
     \<Rightarrow> (ptr \<times> DCMotor list \<times> string option \<times> access list) option" where
  "view a r =
     map_option (\<lambda>(q, \<sigma>). (q, heap \<sigma>, files (world \<sigma>) (''motor0'', a), log (world \<sigma>))) r"

text \<open>A scan with one device: the device with id 3 at port \<open>outA\<close>, driven by \<open>foo\<close>.\<close>

definition found :: candidates where
  "found = [(3, ''outA'', ''foo'')]"

definition unbound :: "candidates st" where
  "unbound = \<lparr>heap = [], world = found\<rparr>"

section \<open>Dereferencing and updating\<close>

lemma deref_put: "deref \<sigma> p = Some m \<Longrightarrow> deref (put p m' \<sigma>) p = Some m'"
  by (auto simp: deref_def put_def split: option.splits if_splits)


lemma with_receiver_Some:
  "deref \<sigma> p = Some m \<Longrightarrow>
   with_receiver body p \<sigma> =
     (case body m (world \<sigma>) of (r, m', w') \<Rightarrow> Some (r, put p m' (\<sigma>\<lparr>world := w'\<rparr>)))"
  by (simp add: with_receiver_def)

lemma setter_Some:
  "deref \<sigma> p = Some m \<Longrightarrow>
   setter body p \<sigma> =
     (case body m (world \<sigma>) of (m', w') \<Rightarrow> Some (p, put p m' (\<sigma>\<lparr>world := w'\<rparr>)))"
  by (simp add: setter_def with_receiver_def split: prod.splits)

lemma put_same: "deref \<sigma> p = Some m \<Longrightarrow> put p m \<sigma> = \<sigma>"
  by (auto simp: deref_def put_def split: option.splits if_splits)

lemma setter_skip:
  assumes "deref \<sigma> p = Some m" and "body m (world \<sigma>) = (m, world \<sigma>)"
  shows "setter body p \<sigma> = Some (p, \<sigma>)"
  using assms by (simp add: setter_Some put_same)

lemma deref_ready: "deref ready (Some 0) = Some motor0"
  by (simp add: deref_def ready_def)

lemma deref_failed: "deref failed (Some 0) = Some (motor0\<lparr>err := Some (IOFailure ''motor0'')\<rparr>)"
  by (simp add: deref_def failed_def)

section \<open>Draining the deferred error\<close>

text \<open>
  Claim C7. \<^verbatim>\<open>Err\<close> returns the error stored on the handle and clears the slot, and an
  \<^verbatim>\<open>Err\<close> that follows at once returns nil and changes nothing.
\<close>

theorem Err_drains:
  assumes "deref \<sigma> p = Some m"
  shows "Err p \<sigma> = Some (err m, put p (m\<lparr>err := None\<rparr>) \<sigma>)
       \<and> deref (put p (m\<lparr>err := None\<rparr>) \<sigma>) p = Some (m\<lparr>err := None\<rparr>)
       \<and> Err p (put p (m\<lparr>err := None\<rparr>) \<sigma>) = Some (None, put p (m\<lparr>err := None\<rparr>) \<sigma>)"
proof -
  let ?\<sigma>' = "put p (m\<lparr>err := None\<rparr>) \<sigma>"
  have first: "Err p \<sigma> = Some (err m, ?\<sigma>')"
    using assms by (simp add: Err_def Err_body_def with_receiver_Some)
  have d: "deref ?\<sigma>' p = Some (m\<lparr>err := None\<rparr>)"
    using assms by (rule deref_put)
  have "put p (m\<lparr>err := None\<rparr>) ?\<sigma>' = ?\<sigma>'"
    using d by (rule put_same)
  then have "Err p ?\<sigma>' = Some (None, ?\<sigma>')"
    using d by (simp add: Err_def Err_body_def with_receiver_Some)
  with first d show ?thesis by simp
qed

theorem Err_drains_witness:
  "Err (Some 0) failed = Some (Some (IOFailure ''motor0''), ready)
   \<and> Err (Some 0) ready = Some (None, ready)"
  using Err_drains [OF deref_failed]
  by (simp add: put_def failed_def ready_def motor0_def)

section \<open>Re-binding a handle\<close>

text \<open>
  Claim C9. \<^verbatim>\<open>setID\<close> overwrites the whole handle: afterwards its id is the given
  one and its deferred error is nil, whatever error was pending.
\<close>

theorem setID_resets:
  assumes "deref \<sigma> p = Some m"
  shows "setID i p \<sigma> = Some ((), put p \<lparr>id_of = i, err = None\<rparr> \<sigma>)
       \<and> deref (put p \<lparr>id_of = i, err = None\<rparr> \<sigma>) p = Some \<lparr>id_of = i, err = None\<rparr>"
proof -
  have "setID i p \<sigma> = Some ((), put p \<lparr>id_of = i, err = None\<rparr> \<sigma>)"
    using assms by (simp add: setID_def setID_body_def with_receiver_Some)
  moreover have "deref (put p \<lparr>id_of = i, err = None\<rparr> \<sigma>) p = Some \<lparr>id_of = i, err = None\<rparr>"
    using assms by (rule deref_put)
  ultimately show ?thesis by simp
qed

theorem setID_resets_witness:
  "setID 7 (Some 0) failed = Some ((), \<lparr>heap = [\<lparr>id_of = 7, err = None\<rparr>], world = brick\<rparr>)
   \<and> deref \<lparr>heap = [\<lparr>id_of = 7, err = None\<rparr>], world = brick\<rparr> (Some 0)
       = Some \<lparr>id_of = 7, err = None\<rparr>"
  using setID_resets [OF deref_failed, of 7]
  by (simp add: put_def failed_def)


section \<open>The sticky error\<close>

text \<open>
  Claim C1. On a handle whose deferred error is set, each of the seven setters returns
  its receiver and leaves the whole state as it was: the backing store, which no
  accessor is applied to, and the handle with its error.
\<close>

theorem sticky_error_short_circuit:
  assumes "deref \<sigma> p = Some m" and "err m \<noteq> None"
  shows "Command io comm p \<sigma> = Some (p, \<sigma>)
       \<and> SetDutyCycleSetpoint io duty p \<sigma> = Some (p, \<sigma>)
       \<and> SetPolarity io pol p \<sigma> = Some (p, \<sigma>)
       \<and> SetRampUpSetpoint io up p \<sigma> = Some (p, \<sigma>)
       \<and> SetRampDownSetpoint io down p \<sigma> = Some (p, \<sigma>)
       \<and> SetStopAction io action p \<sigma> = Some (p, \<sigma>)
       \<and> SetTimeSetpoint io t p \<sigma> = Some (p, \<sigma>)"
proof -
  note skip = setter_skip [OF assms(1)]
  have "Command io comm p \<sigma> = Some (p, \<sigma>)"
    unfolding Command_def using assms(2) by (intro skip) (simp add: Command_body_def)
  moreover have "SetDutyCycleSetpoint io duty p \<sigma> = Some (p, \<sigma>)"
    unfolding SetDutyCycleSetpoint_def using assms(2)
    by (intro skip) (simp add: SetDutyCycleSetpoint_body_def)
  moreover have "SetPolarity io pol p \<sigma> = Some (p, \<sigma>)"
    unfolding SetPolarity_def using assms(2) by (intro skip) (simp add: SetPolarity_body_def)
  moreover have "SetRampUpSetpoint io up p \<sigma> = Some (p, \<sigma>)"
    unfolding SetRampUpSetpoint_def using assms(2)
    by (intro skip) (simp add: SetRampUpSetpoint_body_def)
  moreover have "SetRampDownSetpoint io down p \<sigma> = Some (p, \<sigma>)"
    unfolding SetRampDownSetpoint_def using assms(2)
    by (intro skip) (simp add: SetRampDownSetpoint_body_def)
  moreover have "SetStopAction io action p \<sigma> = Some (p, \<sigma>)"
    unfolding SetStopAction_def using assms(2) by (intro skip) (simp add: SetStopAction_body_def)
  moreover have "SetTimeSetpoint io t p \<sigma> = Some (p, \<sigma>)"
    unfolding SetTimeSetpoint_def using assms(2) by (intro skip) (simp add: SetTimeSetpoint_body_def)
  ultimately show ?thesis by simp
qed

theorem sticky_error_short_circuit_witness:
  "Command sysfs_io ''stop'' (Some 0) failed = Some (Some 0, failed)
   \<and> SetDutyCycleSetpoint sysfs_io 50 (Some 0) failed = Some (Some 0, failed)
   \<and> SetPolarity sysfs_io Normal (Some 0) failed = Some (Some 0, failed)
   \<and> SetRampUpSetpoint sysfs_io 0 (Some 0) failed = Some (Some 0, failed)
   \<and> SetRampDownSetpoint sysfs_io 0 (Some 0) failed = Some (Some 0, failed)
   \<and> SetStopAction sysfs_io ''coast'' (Some 0) failed = Some (Some 0, failed)
   \<and> SetTimeSetpoint sysfs_io 1500700000 (Some 0) failed = Some (Some 0, failed)
   \<and> log (world failed) = []
   \<and> deref failed (Some 0) = Some (motor0\<lparr>err := Some (IOFailure ''motor0'')\<rparr>)"
  using sticky_error_short_circuit [OF deref_failed, of sysfs_io "''stop''" 50 Normal 0 0 "''coast''" 1500700000]
  by (simp add: deref_failed) (simp add: failed_def brick_def)


section \<open>Range-checked setters\<close>

lemma String_motor0: "String (Some motor0) = ''motor0''"
  by (simp add: String_def motorPrefix_def motor0_def Sprint_int_def FormatUint.simps digit_def)

text \<open>
  Claim C3. On a handle with no deferred error, \<^verbatim>\<open>SetDutyCycleSetpoint\<close> writes the
  numeral of a setpoint from -100 to 100 to the attribute and stores the error of the
  write; for any other setpoint it stores a validation error and the backing store is
  left alone.
\<close>

theorem SetDutyCycleSetpoint_range:
  assumes "deref \<sigma> p = Some m" and "err m = None"
  shows "SetDutyCycleSetpoint io sp p \<sigma> =
     (if - 100 \<le> sp \<and> sp \<le> 100 then
        (case setAttributeOf io (world \<sigma>) (Some m) dutyCycleSetpoint (Sprint_int sp) of
           (w', e) \<Rightarrow> Some (p, put p (m\<lparr>err := e\<rparr>) (\<sigma>\<lparr>world := w'\<rparr>)))
      else
        Some (p, put p (m\<lparr>err := Some (Errorf ''ev3dev: invalid duty cycle setpoint: %d (valid -100 - 100)''
                                            [VInt sp])\<rparr>) \<sigma>))"
proof (cases "- 100 \<le> sp \<and> sp \<le> 100")
  case True
  then show ?thesis
    using assms
    by (simp add: SetDutyCycleSetpoint_def SetDutyCycleSetpoint_body_def setter_Some
        split: prod.splits)
next
  case False
  then have "sp < - 100 \<or> sp > 100"
    by linarith
  then show ?thesis
    using assms False
    by (auto simp: SetDutyCycleSetpoint_def SetDutyCycleSetpoint_body_def setter_Some)
qed

theorem SetDutyCycleSetpoint_range_witness:
  "view dutyCycleSetpoint (SetDutyCycleSetpoint sysfs_io 100 (Some 0) ready)
     = Some (Some 0, [motor0], Some ''100'', [Write ''motor0'' dutyCycleSetpoint ''100''])
   \<and> view dutyCycleSetpoint (SetDutyCycleSetpoint sysfs_io (- 100) (Some 0) ready)
     = Some (Some 0, [motor0], Some ''-100'', [Write ''motor0'' dutyCycleSetpoint ''-100''])
   \<and> view dutyCycleSetpoint (SetDutyCycleSetpoint sysfs_io 101 (Some 0) ready)
     = Some (Some 0,
         [motor0\<lparr>err := Some (Errorf ''ev3dev: invalid duty cycle setpoint: %d (valid -100 - 100)''
                                   [VInt 101])\<rparr>],
         Some ''0'', [])
   \<and> view dutyCycleSetpoint (SetDutyCycleSetpoint sysfs_io (- 101) (Some 0) ready)
     = Some (Some 0,
         [motor0\<lparr>err := Some (Errorf ''ev3dev: invalid duty cycle setpoint: %d (valid -100 - 100)''
                                   [VInt (- 101)])\<rparr>],
         Some ''0'', [])"
proof -
  have e: "err motor0 = None"
    by (simp add: motor0_def)
  note r = SetDutyCycleSetpoint_range [OF deref_ready e, of sysfs_io]
  have a: "Sprint_int 100 = ''100''" "Sprint_int (- 100) = ''-100''"
    by (simp_all add: Sprint_int_def FormatUint.simps digit_def)
  show ?thesis
    unfolding r [of 100] r [of "- 100"] r [of 101] r [of "- 101"]
    by (simp add: a view_def sysfs_io_def sysfs_write_def String_motor0 put_def ready_def e
        brick_def)
qed


section \<open>Durations in milliseconds\<close>

lemma abs_sdiv_ms: "\<bar>(k::int) sdiv 1000000\<bar> = \<bar>k\<bar> div 1000000"
  by (cases "k = 0") (simp_all add: signed_divide_int_def abs_mult abs_sgn_eq div_int_pos_iff)

lemma sint_div64_ms: "sint (div64 sp Millisecond) = sint sp sdiv 1000000"
proof -
  have b: "\<bar>sint sp\<bar> \<le> 2 ^ 63"
    using sint_ge [of sp] sint_lt [of sp] by simp
  have "\<bar>sint sp\<bar> div 1000000 * 1000000 \<le> \<bar>sint sp\<bar>"
    by simp
  with b have "\<bar>sint sp sdiv 1000000\<bar> < 2 ^ 63"
    unfolding abs_sdiv_ms by simp
  then have "- (2 ^ 63) \<le> sint sp sdiv 1000000" "sint sp sdiv 1000000 < 2 ^ 63"
    by linarith+
  then have "signed_take_bit 63 (sint sp sdiv 1000000) = sint sp sdiv 1000000"
    by (intro signed_take_bit_int_eq_self) simp_all
  then show ?thesis
    by (simp add: div64_def Millisecond_def sint_sbintrunc')
qed

lemma sdiv_trunc_ms: "(n::int) sdiv 1000000 = trunc_ms n"
proof (cases "0 \<le> n")
  case True
  then show ?thesis
    by (cases "n = 0") (simp_all add: signed_divide_int_def trunc_ms_def)
next
  case False
  then show ?thesis
    by (simp add: signed_divide_int_def trunc_ms_def)
qed

lemma to_int_sint: "to_int x = sint x"
proof -
  have "signed_take_bit 63 (sint x) = sint x"
    using sint_ge [of x] sint_lt [of x] by (intro signed_take_bit_int_eq_self) simp_all
  then show ?thesis
    by (simp add: to_int_def int_of_def intSize_def)
qed

lemma to_int_div64: "to_int (div64 sp Millisecond) = trunc_ms (sint sp)"
  by (simp add: to_int_sint sint_div64_ms sdiv_trunc_ms)

text \<open>
  Where \<^verbatim>\<open>int\<close> has 32 bits the conversion does not keep every count of milliseconds:
  2147483648 ms, a little under 25 days, becomes -2147483648.
\<close>

lemma int_of_32_wraps: "int_of 32 (div64 (2147483648 * Millisecond) Millisecond) = - 2147483648"
  by (simp add: int_of_def div64_def Millisecond_def signed_divide_int_def signed_take_bit_eq_take_bit_minus)





section \<open>Numerals are read back\<close>













lemma deref_world: "deref (\<sigma>\<lparr>world := w\<rparr>) p = deref \<sigma> p"
  by (cases p) (simp_all add: deref_def)






section \<open>The ramp setpoints\<close>

lemma ramp_check: "(sp <s 0 \<or> 10000 <s sp) = (\<not> (0 \<le> sint sp \<and> sint sp \<le> 10000))" for sp :: Duration
  by (auto simp: word_sless_alt)

lemma Sprint_ramp:
  assumes "0 \<le> sint sp" and "sint sp \<le> 10000"
  shows "Sprint_int (to_int (div64 sp Millisecond)) = ''0''"
proof -
  have "sint sp div 1000000 = 0"
    using assms by simp
  then have "trunc_ms (sint sp) = 0"
    using assms by (simp add: trunc_ms_def)
  then show ?thesis
    by (simp add: to_int_div64 Sprint_int_def FormatUint.simps digit_def)
qed

text \<open>
  Claim C2, as the code has it. The ramp setters compare the duration itself, a count
  of nanoseconds, with 0 and 10000. On a handle with no deferred error a setpoint from
  0 ns to 10000 ns is written, as the numeral \<open>0\<close> of its whole milliseconds; every
  other setpoint, one millisecond among them, stores a validation error and the backing
  store is left alone.
\<close>

theorem ramp_setpoint_checked_in_nanoseconds:
  assumes "deref \<sigma> p = Some m" and "err m = None"
  shows "SetRampUpSetpoint io sp p \<sigma> =
     (if 0 \<le> sint sp \<and> sint sp \<le> 10000 then
        (case setAttributeOf io (world \<sigma>) (Some m) rampUpSetpoint ''0'' of
           (w', e) \<Rightarrow> Some (p, put p (m\<lparr>err := e\<rparr>) (\<sigma>\<lparr>world := w'\<rparr>)))
      else
        Some (p, put p (m\<lparr>err := Some (Errorf ''ev3dev: invalid ramp up setpoint: %v (must be positive)''
                                            [VDur sp])\<rparr>) \<sigma>))
    \<and> SetRampDownSetpoint io sp p \<sigma> =
     (if 0 \<le> sint sp \<and> sint sp \<le> 10000 then
        (case setAttributeOf io (world \<sigma>) (Some m) rampDownSetpoint ''0'' of
           (w', e) \<Rightarrow> Some (p, put p (m\<lparr>err := e\<rparr>) (\<sigma>\<lparr>world := w'\<rparr>)))
      else
        Some (p, put p (m\<lparr>err := Some (Errorf ''ev3dev: invalid ramp down setpoint: %v (must be positive)''
                                            [VDur sp])\<rparr>) \<sigma>))"
proof (cases "0 \<le> sint sp \<and> sint sp \<le> 10000")
  case True
  then have "\<not> (sp <s 0 \<or> 10000 <s sp)"
    by (simp add: ramp_check)
  moreover have "Sprint_int (to_int (div64 sp Millisecond)) = ''0''"
    using True by (simp add: Sprint_ramp)
  ultimately show ?thesis
    using assms True
    by (simp add: SetRampUpSetpoint_def SetRampUpSetpoint_body_def SetRampDownSetpoint_def
        SetRampDownSetpoint_body_def setter_Some split: prod.splits)
next
  case False
  then have "sp <s 0 \<or> 10000 <s sp"
    by (simp add: ramp_check)
  then show ?thesis
    using assms False
    by (auto simp: SetRampUpSetpoint_def SetRampUpSetpoint_body_def SetRampDownSetpoint_def
        SetRampDownSetpoint_body_def setter_Some)
qed

theorem ramp_setpoint_checked_in_nanoseconds_witness:
  "view rampUpSetpoint (SetRampUpSetpoint sysfs_io Millisecond (Some 0) ready)
     = Some (Some 0,
         [motor0\<lparr>err := Some (Errorf ''ev3dev: invalid ramp up setpoint: %v (must be positive)''
                                   [VDur 1000000])\<rparr>],
         Some ''0'', [])
   \<and> view rampDownSetpoint (SetRampDownSetpoint sysfs_io Millisecond (Some 0) ready)
     = Some (Some 0,
         [motor0\<lparr>err := Some (Errorf ''ev3dev: invalid ramp down setpoint: %v (must be positive)''
                                   [VDur 1000000])\<rparr>],
         Some ''0'', [])
   \<and> view rampUpSetpoint (SetRampUpSetpoint sysfs_io 10000 (Some 0) ready)
     = Some (Some 0, [motor0], Some ''0'', [Write ''motor0'' rampUpSetpoint ''0''])"
proof -
  have e: "err motor0 = None" "motor0\<lparr>err := None\<rparr> = motor0"
    by (simp_all add: motor0_def)
  note r = ramp_setpoint_checked_in_nanoseconds [OF deref_ready e(1), of sysfs_io]
  show ?thesis
    unfolding r [of Millisecond, THEN conjunct1] r [of Millisecond, THEN conjunct2]
      r [of 10000, THEN conjunct1]
    by (simp add: Millisecond_def view_def sysfs_io_def sysfs_write_def String_motor0 put_def
        ready_def e brick_def)
qed


section \<open>The state of the motor\<close>

lemma state_loop_eq:
  "state_loop tbl data toks stat =
     (case unrecognized tbl toks of
        Some t \<Rightarrow> (0, Some (Errorf ''ev3dev: unrecognized motor state value: %s in [%s]''
                               [VStr t, VStr data]))
      | None \<Rightarrow> (stat OR or_bits tbl toks, None))"
proof (induction toks arbitrary: stat)
  case Nil
  then show ?case
    by (simp add: unrecognized_def or_bits_def)
next
  case (Cons s ss)
  show ?case
  proof (cases "tbl s")
    case None
    then show ?thesis
      by (simp add: unrecognized_def)
  next
    case (Some b)
    have "state_loop tbl data (s # ss) stat = state_loop tbl data ss (stat OR b)"
      using Some by simp
    also have "\<dots> =
       (case unrecognized tbl ss of
          Some t \<Rightarrow> (0, Some (Errorf ''ev3dev: unrecognized motor state value: %s in [%s]''
                                 [VStr t, VStr data]))
        | None \<Rightarrow> ((stat OR b) OR or_bits tbl ss, None))"
      by (rule Cons.IH)
    also have "unrecognized tbl ss = unrecognized tbl (s # ss)"
      using Some by (simp add: unrecognized_def)
    also have "(stat OR b) OR or_bits tbl ss = stat OR or_bits tbl (s # ss)"
      using Some by (simp add: or_bits_def or.assoc)
    finally show ?thesis .
  qed
qed

lemma unrecognized_None_iff: "unrecognized tbl toks = None \<longleftrightarrow> set toks \<subseteq> dom tbl"
  by (auto simp: unrecognized_def find_None_iff)

lemma unrecognized_Some:
  "unrecognized tbl toks = Some t \<Longrightarrow> t \<in> set toks \<and> tbl t = None"
  by (auto simp: unrecognized_def find_Some_iff)

lemma bit_or_bits:
  "bit (or_bits tbl toks) k \<longleftrightarrow> (\<exists>t \<in> set toks. bit (the (tbl t)) k)"
  by (induction toks) (auto simp: or_bits_def bit_or_iff)

text \<open>
  Claim C4. When the deferred error is set, \<^verbatim>\<open>State\<close> returns it with the value 0,
  clears the slot and leaves the backing store alone. Otherwise it reads the state
  attribute; a read error is returned, and else the text is split on single spaces: when
  the table holds every token the result is the bitwise OR of their bits, and when it
  does not the result is an error with the first token that is missing and the text.
\<close>

theorem State_reads_bitmask:
  assumes "deref \<sigma> p = Some m"
    and "attributeOf io (world \<sigma>) (Some m) state = (w', data, n, e)"
  shows "State tbl io p \<sigma> =
     (if err m \<noteq> None then Some ((0, err m), put p (m\<lparr>err := None\<rparr>) \<sigma>)
      else if e \<noteq> None then Some ((0, e), \<sigma>\<lparr>world := w'\<rparr>)
      else
        (case unrecognized tbl (Split data CHR '' '') of
           Some t \<Rightarrow>
             Some ((0, Some (Errorf ''ev3dev: unrecognized motor state value: %s in [%s]''
                                [VStr t, VStr data])), \<sigma>\<lparr>world := w'\<rparr>)
         | None \<Rightarrow> Some ((or_bits tbl (Split data CHR '' ''), None), \<sigma>\<lparr>world := w'\<rparr>)))"
proof -
  have same: "put p m (\<sigma>\<lparr>world := w'\<rparr>) = \<sigma>\<lparr>world := w'\<rparr>"
    using assms(1) by (intro put_same) (simp add: deref_world)
  show ?thesis
  proof (cases "err m")
    case (Some x)
    then show ?thesis
      using assms(1) by (simp add: State_def State_body_def Err_body_def with_receiver_Some)
  next
    case None
    then show ?thesis
      using assms same
      by (simp add: State_def State_body_def with_receiver_Some state_loop_eq
          split: option.splits)
  qed
qed

theorem State_reads_bitmask_witness:
  "map_option (\<lambda>(r, \<sigma>'). (r, heap \<sigma>', log (world \<sigma>'))) (State example_table sysfs_io (Some 0) ready)
     = Some ((3, None), [motor0], [Read ''motor0'' state])
   \<and> map_option (\<lambda>(r, \<sigma>'). (r, heap \<sigma>', log (world \<sigma>')))
       (State example_table sysfs_io (Some 0)
          (ready\<lparr>world := brick\<lparr>files := (files brick)((''motor0'', state) \<mapsto> ''running flurb'')\<rparr>\<rparr>))
     = Some ((0, Some (Errorf ''ev3dev: unrecognized motor state value: %s in [%s]''
                         [VStr ''flurb'', VStr ''running flurb''])),
             [motor0], [Read ''motor0'' state])
   \<and> State example_table sysfs_io (Some 0) failed = Some ((0, Some (IOFailure ''motor0'')), ready)"
proof -
  let ?flurb = "ready\<lparr>world := brick\<lparr>files := (files brick)((''motor0'', state) \<mapsto> ''running flurb'')\<rparr>\<rparr>"
  have e: "err motor0 = None" "motor0\<lparr>err := None\<rparr> = motor0"
    by (simp_all add: motor0_def)
  have r1: "attributeOf sysfs_io (world ready) (Some motor0) state
      = (brick\<lparr>log := [Read ''motor0'' state]\<rparr>, ''running ramping'', 15, None)"
    by (simp add: sysfs_io_def sysfs_read_def String_motor0 ready_def brick_def)
  have d2: "deref ?flurb (Some 0) = Some motor0"
    by (simp add: deref_def ready_def)
  have r2: "attributeOf sysfs_io (world ?flurb) (Some motor0) state
      = (brick\<lparr>files := (files brick)((''motor0'', state) \<mapsto> ''running flurb''),
               log := [Read ''motor0'' state]\<rparr>, ''running flurb'', 13, None)"
    by (simp add: sysfs_io_def sysfs_read_def String_motor0 ready_def brick_def)
  have r3: "attributeOf sysfs_io (world failed) (Some (motor0\<lparr>err := Some (IOFailure ''motor0'')\<rparr>)) state
      = (brick\<lparr>log := [Read ''motor0'' state]\<rparr>, ''running ramping'', 15, None)"
    by (simp add: sysfs_io_def sysfs_read_def String_def motorPrefix_def motor0_def Sprint_int_def
        FormatUint.simps digit_def failed_def brick_def)
  show ?thesis
    unfolding State_reads_bitmask [OF deref_ready r1, of example_table]
      State_reads_bitmask [OF d2 r2, of example_table]
      State_reads_bitmask [OF deref_failed r3, of example_table]
    by (simp add: e unrecognized_def or_bits_def example_table_def ready_def failed_def put_def)
qed


section \<open>Commands\<close>

lemma available_iff: "available avail comm \<longleftrightarrow> comm \<in> set avail"
  by (induction avail) auto

text \<open>
  Claim C5. On a handle with no deferred error, \<^verbatim>\<open>Command\<close> reads the allow-list with
  \<^verbatim>\<open>Commands\<close>. An error of that read is stored. A command that is not in the list
  stores an error made of the command, the string form of the device and the list, and
  the store stays as the read left it. A command in the list is written to the command
  attribute and the error of the write is stored. The receiver is returned each time.
\<close>

theorem Command_checks_allow_list:
  assumes "deref \<sigma> p = Some m" and "err m = None"
    and "Commands io (Some m) (world \<sigma>) = ((avail, e), w1)"
  shows "Command io comm p \<sigma> =
     (if e \<noteq> None then Some (p, put p (m\<lparr>err := e\<rparr>) (\<sigma>\<lparr>world := w1\<rparr>))
      else if comm \<notin> set avail then
        Some (p, put p (m\<lparr>err := Some (Errorf ''ev3dev: command %q not available for %s (available:%q)''
                                            [VStr comm, VStr (String (Some m)), VStrs avail])\<rparr>)
                   (\<sigma>\<lparr>world := w1\<rparr>))
      else
        (case setAttributeOf io w1 (Some m) command comm of
           (w2, e2) \<Rightarrow> Some (p, put p (m\<lparr>err := e2\<rparr>) (\<sigma>\<lparr>world := w2\<rparr>))))"
proof (cases "e")
  case (Some x)
  then show ?thesis
    using assms by (simp add: Command_def Command_body_def setter_Some)
next
  case None
  show ?thesis
  proof (cases "comm \<in> set avail")
    case True
    then show ?thesis
      using assms None
      by (simp add: Command_def Command_body_def setter_Some available_iff split: prod.splits)
  next
    case False
    then show ?thesis
      using assms None
      by (simp add: Command_def Command_body_def setter_Some available_iff)
  qed
qed

theorem Command_checks_allow_list_witness:
  "view command (Command sysfs_io ''stop'' (Some 0) ready)
     = Some (Some 0, [motor0], Some ''stop'',
             [Read ''motor0'' commands, Write ''motor0'' command ''stop''])
   \<and> view command (Command sysfs_io ''bogus'' (Some 0) ready)
     = Some (Some 0,
         [motor0\<lparr>err := Some (Errorf ''ev3dev: command %q not available for %s (available:%q)''
                                   [VStr ''bogus'', VStr ''motor0'', VStrs [''run-forever'', ''stop'']])\<rparr>],
         Some [], [Read ''motor0'' commands])
   \<and> view command (Command sysfs_io ''stop'' (Some 0) (ready\<lparr>world := \<lparr>files = Map.empty, log = []\<rparr>\<rparr>))
     = Some (Some 0, [motor0\<lparr>err := Some (IOFailure ''motor0'')\<rparr>], None,
             [Read ''motor0'' commands])"
proof -
  let ?gone = "ready\<lparr>world := \<lparr>files = Map.empty, log = []\<rparr>\<rparr>"
  have e: "err motor0 = None" "motor0\<lparr>err := None\<rparr> = motor0"
    by (simp_all add: motor0_def)
  have c1: "Commands sysfs_io (Some motor0) (world ready)
      = (([''run-forever'', ''stop''], None), brick\<lparr>log := [Read ''motor0'' commands]\<rparr>)"
    by (simp add: Commands_def stringSliceFrom_def sysfs_io_def sysfs_read_def String_motor0
        ready_def brick_def)
  have d2: "deref ?gone (Some 0) = Some motor0"
    by (simp add: deref_def ready_def)
  have c2: "Commands sysfs_io (Some motor0) (world ?gone)
      = (([], Some (IOFailure ''motor0'')), \<lparr>files = Map.empty, log = [Read ''motor0'' commands]\<rparr>)"
    by (simp add: Commands_def stringSliceFrom_def sysfs_io_def sysfs_read_def String_motor0)
  show ?thesis
    unfolding Command_checks_allow_list [OF deref_ready e(1) c1]
      Command_checks_allow_list [OF d2 e(1) c2]
    by (simp add: e view_def sysfs_io_def sysfs_write_def String_motor0 put_def ready_def
        brick_def)
qed

section \<open>Discovery of a handle\<close>

text \<open>
  Claim C6. \<^verbatim>\<open>DCMotorFor\<close> passes the resolver's error on. The handle is nil exactly
  when the resolver's id is \<open>-1\<close>, and then no handle is made; for any other id the
  handle is a new one with that id and no deferred error, whether or not there is an
  error with it. A handle that is returned never has the id \<open>-1\<close>, and the handles
  that were there stay as they were.
\<close>

theorem DCMotorFor_handle:
  assumes "deviceIDFor (world \<sigma>) port driver = (w', i, e)"
    and "DCMotorFor deviceIDFor port driver \<sigma> = ((h, e'), \<sigma>')"
  shows "e' = e \<and> world \<sigma>' = w'
       \<and> (h = None \<longleftrightarrow> i = - 1)
       \<and> (i = - 1 \<longrightarrow> heap \<sigma>' = heap \<sigma>)
       \<and> (i \<noteq> - 1 \<longrightarrow> deref \<sigma> h = None \<and> deref \<sigma>' h = Some \<lparr>id_of = i, err = None\<rparr>)
       \<and> (\<forall>m. deref \<sigma>' h = Some m \<longrightarrow> id_of m \<noteq> - 1)
       \<and> (\<forall>q m. deref \<sigma> q = Some m \<longrightarrow> deref \<sigma>' q = Some m)"
proof (cases "i = - 1")
  case True
  with assms have "h = None" "e' = e" "\<sigma>' = \<sigma>\<lparr>world := w'\<rparr>"
    by (simp_all add: DCMotorFor_def)
  with True show ?thesis
    by (simp add: deref_world) (simp add: deref_def)
next
  case False
  with assms have r: "h = Some (length (heap \<sigma>))" "e' = e"
    "\<sigma>' = \<sigma>\<lparr>heap := heap \<sigma> @ [\<lparr>id_of = i, err = None\<rparr>], world := w'\<rparr>"
    by (simp_all add: DCMotorFor_def)
  have "deref \<sigma>' q = Some m" if "deref \<sigma> q = Some m" for q m
    using that r(3) by (cases q) (auto simp: deref_def nth_append split: if_splits)
  with False r show ?thesis
    by (auto simp: deref_def)
qed

theorem DCMotorFor_handle_witness:
  "DCMotorFor deviceIDFor_spec ''outA'' ''bar'' unbound
     = ((Some 0, Some (DriverMismatch ''bar'' ''foo'')),
        \<lparr>heap = [\<lparr>id_of = 3, err = None\<rparr>], world = found\<rparr>)
   \<and> deref \<lparr>heap = [\<lparr>id_of = 3, err = None\<rparr>], world = found\<rparr> (Some 0)
     = Some \<lparr>id_of = 3, err = None\<rparr>
   \<and> DCMotorFor deviceIDFor_spec ''outB'' ''foo'' unbound = ((None, Some NotFound), unbound)"
proof -
  let ?\<sigma>' = "\<lparr>heap = [\<lparr>id_of = 3, err = None\<rparr>], world = found\<rparr>"
  have a: "deviceIDFor_spec (world unbound) ''outA'' ''bar''
      = (found, 3, Some (DriverMismatch ''bar'' ''foo''))"
    by (simp add: deviceIDFor_spec_def unbound_def found_def)
  have b: "DCMotorFor deviceIDFor_spec ''outA'' ''bar'' unbound
      = ((Some 0, Some (DriverMismatch ''bar'' ''foo'')), ?\<sigma>')"
    by (simp add: DCMotorFor_def deviceIDFor_spec_def unbound_def found_def)
  have "deref ?\<sigma>' (Some 0) = Some \<lparr>id_of = 3, err = None\<rparr>"
    using DCMotorFor_handle [OF a b] by simp
  moreover have "DCMotorFor deviceIDFor_spec ''outB'' ''foo'' unbound
      = ((None, Some NotFound), unbound)"
    by (simp add: DCMotorFor_def deviceIDFor_spec_def unbound_def found_def)
  ultimately show ?thesis
    using b by simp
qed

end
